theory Spec2Isabelle
  imports Main "HOL-Library.Word"
begin

section \<open>gohttpsnoop: capture routine, record layout and consumer loop\<close>

text \<open>
  The repository is one Go program (\<^verbatim>\<open>main.go\<close>) that embeds a BPF C program.
  The C function \<^verbatim>\<open>handler\<close> runs at every entry of the traced Go function, walks
  from the stack pointer to \<^verbatim>\<open>http.Request.Method\<close> and
  \<^verbatim>\<open>http.Request.URL.Path\<close> and submits a \<^verbatim>\<open>struct event\<close>. The Go side reads
  each submitted blob with \<^verbatim>\<open>binary.Read\<close>, slices the two arrays by the stored
  lengths and prints one line.
\<close>

subsection \<open>Bytes, 64-bit words and byte order\<close>

type_synonym byte = "8 word"
type_synonym u64 = "64 word"

text \<open>A Go \<^verbatim>\<open>string\<close> and a \<^verbatim>\<open>[]byte\<close> are both sequences of bytes.\<close>

type_synonym bytes = "byte list"

definition bytes_of :: "string \<Rightarrow> bytes" where
  "bytes_of s = map of_char s"

text \<open>
  The byte order of the machine. The BPF program stores its \<^verbatim>\<open>u64\<close> fields in
  it, and \<^verbatim>\<open>bpf.GetHostByteOrder()\<close> returns it to the consumer: both run on the
  same host, so one value stands for both.
\<close>

datatype ByteOrder = LittleEndian | BigEndian

fun le_u64 :: "bytes \<Rightarrow> u64" where
  "le_u64 [] = 0"
| "le_u64 (b # bs) = or (ucast b) (push_bit 8 (le_u64 bs))"

fun le_bytes :: "nat \<Rightarrow> u64 \<Rightarrow> bytes" where
  "le_bytes 0 w = []"
| "le_bytes (Suc n) w = ucast w # le_bytes n (drop_bit 8 w)"

definition Uint64 :: "ByteOrder \<Rightarrow> bytes \<Rightarrow> u64" where
  "Uint64 order b = (case order of LittleEndian \<Rightarrow> le_u64 b | BigEndian \<Rightarrow> le_u64 (rev b))"

definition PutUint64 :: "ByteOrder \<Rightarrow> u64 \<Rightarrow> bytes" where
  "PutUint64 order v =
     (case order of LittleEndian \<Rightarrow> le_bytes 8 v | BigEndian \<Rightarrow> rev (le_bytes 8 v))"

subsection \<open>The traced process's memory and \<^verbatim>\<open>bpf_probe_read\<close>\<close>

text \<open>
  The memory the probe reads from: an address is mapped to a byte or is not readable.
\<close>

type_synonym memory = "u64 \<Rightarrow> byte option"

text \<open>Reading \<open>n\<close> consecutive bytes succeeds only if every one of them is readable.\<close>

primrec read_bytes :: "memory \<Rightarrow> u64 \<Rightarrow> nat \<Rightarrow> bytes option" where
  "read_bytes mem src 0 = Some []"
| "read_bytes mem src (Suc n) =
     (case mem src of
        None \<Rightarrow> None
      | Some b \<Rightarrow> map_option ((#) b) (read_bytes mem (src + 1) n))"

text \<open>
  \<^verbatim>\<open>bpf_probe_read(dst, size, src)\<close> is a kernel helper, not code of the repository.
  It copies \<open>sz\<close> bytes to the front of \<open>dst\<close>; when the read faults it fills those
  \<open>sz\<close> bytes with zeros and returns an error code, which \<^verbatim>\<open>handler\<close> never
  looks at. The bytes of \<open>dst\<close> after the first \<open>sz\<close> are kept.
\<close>

definition bpf_probe_read :: "memory \<Rightarrow> bytes \<Rightarrow> nat \<Rightarrow> u64 \<Rightarrow> bytes" where
  "bpf_probe_read mem dst sz src =
     (case read_bytes mem src sz of
        Some bs \<Rightarrow> bs @ drop sz dst
      | None \<Rightarrow> replicate sz 0 @ drop sz dst)"

text \<open>
  \<^verbatim>\<open>bpf_probe_read(&v, sizeof(v), src)\<close> for a \<^verbatim>\<open>u64 v\<close>: all eight bytes of the
  variable are overwritten, and the variable is then read in the machine's byte order.
\<close>

definition probe_read_u64 :: "ByteOrder \<Rightarrow> memory \<Rightarrow> u64 \<Rightarrow> u64" where
  "probe_read_u64 order mem src = Uint64 order (bpf_probe_read mem (replicate 8 0) 8 src)"

subsection \<open>The BPF program\<close>

text \<open>\<^verbatim>\<open>#define OFFSET(ptr, offset) (void*)ptr + offset * 8\<close>\<close>

definition OFFSET :: "u64 \<Rightarrow> u64 \<Rightarrow> u64" where
  "OFFSET ptr offset = ptr + offset * 8"

text \<open>
  \<^verbatim>\<open>struct event\<close> of the C program: the two \<^verbatim>\<open>u64\<close> lengths, then the arrays
  \<^verbatim>\<open>char method[10]\<close> and \<^verbatim>\<open>char path[128]\<close>. The field \<^verbatim>\<open>method\<close> is
  \<open>method_arr\<close> here, \<open>method\<close> being a word of the proof language.
\<close>

record bpf_event =
  method_len :: u64 path_len :: u64 method_arr :: bytes path :: bytes

definition sizeof_method :: nat where "sizeof_method = 10"
definition sizeof_path :: nat where "sizeof_path = 128"

text \<open>
  \<^verbatim>\<open>handler\<close>, statement by statement. \<open>sp\<close> is \<^verbatim>\<open>PT_REGS_SP(ctx)\<close>. The result
  is the \<^verbatim>\<open>struct event\<close> handed to \<^verbatim>\<open>events.perf_submit\<close>.
\<close>

definition handler :: "ByteOrder \<Rightarrow> memory \<Rightarrow> u64 \<Rightarrow> bpf_event" where
  "handler order mem sp =
     (let e = \<lparr>method_len = 0, path_len = 0,
               method_arr = replicate sizeof_method 0, path = replicate sizeof_path 0\<rparr>;
          req = probe_read_u64 order mem (OFFSET sp 3);
          data = probe_read_u64 order mem (OFFSET req 0);
          e = e\<lparr>method_len := probe_read_u64 order mem (OFFSET req 1)\<rparr>;
          e = e\<lparr>method_arr := bpf_probe_read mem (method_arr e)
                 (if method_len e > of_nat sizeof_method then sizeof_method
                  else unat (method_len e))
                 data\<rparr>;
          url = probe_read_u64 order mem (OFFSET req 2);
          data = probe_read_u64 order mem (OFFSET url 7);
          e = e\<lparr>path_len := probe_read_u64 order mem (OFFSET url 8)\<rparr>;
          e = e\<lparr>path := bpf_probe_read mem (path e)
                 (if path_len e > of_nat sizeof_path then sizeof_path
                  else unat (path_len e))
                 data\<rparr>
      in e)"

text \<open>
  The layout of a C struct: every field is placed at the next multiple of its alignment,
  and the size of the struct is rounded up to the largest alignment. A field is given
  as (size, alignment).
\<close>

definition align_up :: "nat \<Rightarrow> nat \<Rightarrow> nat" where
  "align_up n a = ((n + a - 1) div a) * a"

fun c_offsets :: "nat \<Rightarrow> (nat \<times> nat) list \<Rightarrow> nat list" where
  "c_offsets pos [] = []"
| "c_offsets pos ((sz, al) # fs) = align_up pos al # c_offsets (align_up pos al + sz) fs"

fun c_end :: "nat \<Rightarrow> (nat \<times> nat) list \<Rightarrow> nat" where
  "c_end pos [] = pos"
| "c_end pos ((sz, al) # fs) = c_end (align_up pos al + sz) fs"

definition c_sizeof :: "(nat \<times> nat) list \<Rightarrow> nat" where
  "c_sizeof fs = align_up (c_end 0 fs) (fold max (map snd fs) 1)"

text \<open>The fields of \<^verbatim>\<open>struct event\<close>: two \<^verbatim>\<open>u64\<close>, \<^verbatim>\<open>char[10]\<close>, \<^verbatim>\<open>char[128]\<close>.\<close>

definition struct_event :: "(nat \<times> nat) list" where
  "struct_event = [(8, 8), (8, 8), (sizeof_method, 1), (sizeof_path, 1)]"

text \<open>
  The bytes of a struct in memory: before every field the padding that brings it to its
  offset, then the field's own bytes.
\<close>

fun c_bytes :: "nat \<Rightarrow> ((nat \<times> nat) \<times> bytes) list \<Rightarrow> bytes" where
  "c_bytes pos [] = []"
| "c_bytes pos (((sz, al), v) # fs) =
     replicate (align_up pos al - pos) 0 @ v @ c_bytes (align_up pos al + sz) fs"

text \<open>
  \<^verbatim>\<open>events.perf_submit(ctx, &e, sizeof(e))\<close> sends the \<^verbatim>\<open>sizeof(e)\<close> bytes of the
  struct: the fields at their offsets, the \<^verbatim>\<open>u64\<close> fields in the machine's byte
  order, and the tail padding, which \<^verbatim>\<open>struct event e = {}\<close> zeroed.
\<close>

definition perf_submit :: "ByteOrder \<Rightarrow> bpf_event \<Rightarrow> bytes" where
  "perf_submit order e =
     c_bytes 0 (zip struct_event
       [PutUint64 order (method_len e), PutUint64 order (path_len e), method_arr e, path e])
     @ replicate (c_sizeof struct_event - c_end 0 struct_event) 0"

subsection \<open>The consumer\<close>

text \<open>\<^verbatim>\<open>type event struct\<close> of the Go program.\<close>

record event =
  MethodLen :: u64
  PathLen :: u64
  Method :: bytes
  Path :: bytes

datatype error = EOF | ErrUnexpectedEOF

text \<open>
  \<^verbatim>\<open>binary.Size\<close> of the Go struct: \<^verbatim>\<open>encoding/binary\<close> packs the fields with no
  padding.
\<close>

definition dataSize :: nat where
  "dataSize = 8 + 8 + 10 + 128"

text \<open>
  \<^verbatim>\<open>binary.Read(bytes.NewBuffer(data), order, &e)\<close>: it first reads \<open>dataSize\<close>
  bytes (\<^verbatim>\<open>io.ReadFull\<close>: \<^verbatim>\<open>EOF\<close> when there is nothing to read,
  \<^verbatim>\<open>ErrUnexpectedEOF\<close> when there is too little), then decodes the fields one after
  the other from those bytes. On an error \<^verbatim>\<open>e\<close> is not written.
\<close>

definition binary_Read :: "bytes \<Rightarrow> ByteOrder \<Rightarrow> error + event" where
  "binary_Read data order =
     (if length data < dataSize then Inl (if data = [] then EOF else ErrUnexpectedEOF)
      else
        let buf = take dataSize data;
            f1 = take 8 buf; buf = drop 8 buf;
            f2 = take 8 buf; buf = drop 8 buf;
            f3 = take 10 buf; buf = drop 10 buf;
            f4 = take 128 buf
        in Inr \<lparr>MethodLen = Uint64 order f1, PathLen = Uint64 order f2,
                  Method = f3, Path = f4\<rparr>)"

text \<open>\<^verbatim>\<open>err.Error()\<close> of the two errors of package \<^verbatim>\<open>io\<close>.\<close>

fun Error :: "error \<Rightarrow> bytes" where
  "Error EOF = bytes_of ''EOF''"
| "Error ErrUnexpectedEOF = bytes_of ''unexpected EOF''"

text \<open>
  A run-time panic of Go. The slice expression \<^verbatim>\<open>a[:high]\<close> on an array panics
  when \<open>high\<close> is larger than the array's length, whatever the integer type of
  \<open>high\<close>.
\<close>

datatype panic = SliceBoundsOutOfRange nat nat | IndexOutOfRange nat nat

definition slice_to :: "bytes \<Rightarrow> u64 \<Rightarrow> panic + bytes" where
  "slice_to a high =
     (if unat high \<le> length a then Inr (take (unat high) a)
      else Inl (SliceBoundsOutOfRange (unat high) (length a)))"

text \<open>
  \<^verbatim>\<open>method, path := string(e.Method[:e.MethodLen]), string(e.Path[:e.PathLen])\<close>:
  the two operands are evaluated from left to right, before anything is printed.
\<close>

definition method_path :: "event \<Rightarrow> panic + (bytes \<times> bytes)" where
  "method_path e =
     (case slice_to (Method e) (MethodLen e) of
        Inl p \<Rightarrow> Inl p
      | Inr m \<Rightarrow>
          (case slice_to (Path e) (PathLen e) of
             Inl p \<Rightarrow> Inl p
           | Inr pa \<Rightarrow> Inr (m, pa)))"

subsection \<open>Formatting\<close>

text \<open>
  \<^verbatim>\<open>%-10s\<close> pads on the right to a width of ten, and package \<^verbatim>\<open>fmt\<close> measures
  the width in runes with \<^verbatim>\<open>utf8.RuneCountInString\<close>. The tables of package
  \<^verbatim>\<open>unicode/utf8\<close>: \<open>first\<close> classifies a leading byte (low nibble: the length of
  the sequence; high nibble: which range the second byte must be in).
\<close>

definition first :: "byte \<Rightarrow> byte" where
  "first c =
     (if c < 0x80 then 0xF0
      else if c < 0xC2 then 0xF1
      else if c < 0xE0 then 0x02
      else if c = 0xE0 then 0x13
      else if c = 0xED then 0x23
      else if c < 0xF0 then 0x03
      else if c = 0xF0 then 0x34
      else if c < 0xF4 then 0x04
      else if c = 0xF4 then 0x44
      else 0xF1)"

definition acceptRanges :: "byte \<Rightarrow> byte \<times> byte" where
  "acceptRanges i =
     (if i = 0 then (0x80, 0xBF)
      else if i = 1 then (0xA0, 0xBF)
      else if i = 2 then (0x80, 0x9F)
      else if i = 3 then (0x90, 0xBF)
      else if i = 4 then (0x80, 0x8F)
      else (0, 0))"

text \<open>
  One round of the loop of \<^verbatim>\<open>RuneCountInString\<close>: the number of bytes it advances
  by, at the front of a string that is not empty.
\<close>

definition rune_advance :: "bytes \<Rightarrow> nat" where
  "rune_advance s =
     (let c = hd s in
      if c < 0x80 then 1
      else
        let x = first c in
        if x = 0xF1 then 1
        else
          let sz = unat (and x 7) in
          if sz > length s then 1
          else
            let accept = acceptRanges (drop_bit 4 x) in
            if s ! 1 < fst accept \<or> snd accept < s ! 1 then 1
            else if sz = 2 then 2
            else if s ! 2 < 0x80 \<or> 0xBF < s ! 2 then 1
            else if sz = 3 then 3
            else if s ! 3 < 0x80 \<or> 0xBF < s ! 3 then 1
            else sz)"

function RuneCountInString :: "bytes \<Rightarrow> nat" where
  "RuneCountInString s =
     (if s = [] then 0 else 1 + RuneCountInString (drop (rune_advance s) s))"
  by pat_completeness auto
termination
proof (relation "measure length")
  show "wf (measure length)" by simp
next
  fix s :: bytes
  assume ne: "s \<noteq> []"
  have "first (hd s) \<noteq> 0xF1 \<Longrightarrow> \<not> hd s < 0x80 \<Longrightarrow> 0 < unat (and (first (hd s)) 7)"
    by (simp add: first_def split: if_splits)
  then have "0 < rune_advance s"
    by (simp add: rune_advance_def Let_def)
  with ne show "(drop (rune_advance s) s, s) \<in> measure length"
    by simp
qed

declare RuneCountInString.simps [simp del]

text \<open>\<^verbatim>\<open>fmt\<close>'s padding with the minus flag: the string, then the missing spaces.\<close>

definition padString :: "nat \<Rightarrow> bytes \<Rightarrow> bytes" where
  "padString wid s = s @ replicate (wid - RuneCountInString s) 0x20"

text \<open>\<^verbatim>\<open>fmt.Printf("%-10s %s\n", method, path)\<close>: the bytes written to standard output.\<close>

definition Printf_line :: "bytes \<Rightarrow> bytes \<Rightarrow> bytes" where
  "Printf_line m pa = padString 10 m @ [0x20] @ pa @ [0x0A]"

text \<open>\<^verbatim>\<open>fmt.Printf("failed to decode packet: %s\n", err)\<close>\<close>

definition Printf_failed :: "error \<Rightarrow> bytes" where
  "Printf_failed err = bytes_of ''failed to decode packet: '' @ Error err @ [0x0A]"

subsection \<open>The consumer loop and \<^verbatim>\<open>main\<close>\<close>

text \<open>
  One round of the loop of the goroutine, for the entry \<open>data\<close> it took from the
  channel: what it prints, or the panic that ends the process.
\<close>

definition consume :: "ByteOrder \<Rightarrow> bytes \<Rightarrow> panic + bytes" where
  "consume order data =
     (case binary_Read data order of
        Inl err \<Rightarrow> Inr (Printf_failed err)
      | Inr e \<Rightarrow>
          (case method_path e of
             Inl p \<Rightarrow> Inl p
           | Inr (m, pa) \<Rightarrow> Inr (Printf_line m pa)))"

text \<open>
  The loop over the entries that arrive on the channel, with the standard output so far.
  When no entry is left the goroutine waits on the channel.
\<close>

fun consumer :: "ByteOrder \<Rightarrow> bytes list \<Rightarrow> bytes \<Rightarrow> bytes \<times> panic option" where
  "consumer order [] out = (out, None)"
| "consumer order (data # rest) out =
     (case consume order data of
        Inl p \<Rightarrow> (out, Some p)
      | Inr s \<Rightarrow> consumer order rest (out @ s))"

text \<open>
  What the calls into gobpf return during setup: for each of the three calls whose error
  \<^verbatim>\<open>main\<close> checks, the error's text if it fails.
\<close>

record gobpf =
  LoadKprobe :: "bytes option"
  AttachUprobe :: "bytes option"
  InitPerfMap :: "bytes option"

text \<open>
  What a run of the process leaves behind: standard output, the message of
  \<^verbatim>\<open>log.Fatalf\<close> (without the time stamp the logger puts in front), the panic that
  ended it if one did, the exit code, whether \<^verbatim>\<open>perfMap.Start()\<close> was reached, and
  the events \<^verbatim>\<open>handler\<close> built during the run, one for each time it ran.
\<close>

record run =
  stdout :: bytes
  fatal :: bytes
  panicked :: "panic option"
  exit_code :: nat
  started :: bool
  captures :: "bpf_event list"

text \<open>
  \<^verbatim>\<open>log.Fatalf\<close> writes the message and ends the process with exit code 1. The logger
  ends the message with a newline if it has none. \<open>caps\<close> is what \<^verbatim>\<open>handler\<close> has
  built by then.
\<close>

definition Fatalf :: "bpf_event list \<Rightarrow> bytes \<Rightarrow> run" where
  "Fatalf caps msg =
     \<lparr>stdout = [], fatal = (if msg \<noteq> [] \<and> last msg = 0x0A then msg else msg @ [0x0A]),
      panicked = None, exit_code = 1, started = False, captures = caps\<rparr>"

text \<open>
  \<^verbatim>\<open>main\<close>. \<open>Args\<close> is \<^verbatim>\<open>os.Args\<close> and \<open>env\<close> what setup returns. From the moment
  \<^verbatim>\<open>AttachUprobe\<close> has returned without an error the probe is in place, and the kernel
  runs \<^verbatim>\<open>handler\<close> at every entry of the traced function: \<open>calls\<close> lists these
  entries up to the end of the process, each as the memory and the stack pointer at
  that moment. \<open>received\<close> is the entries the goroutine takes from the channel between
  \<^verbatim>\<open>perfMap.Start()\<close> and the signal. An unrecovered panic ends a Go process with
  exit code 2; returning from \<^verbatim>\<open>main\<close> ends it with 0.
\<close>

definition main ::
  "bytes list \<Rightarrow> gobpf \<Rightarrow> ByteOrder \<Rightarrow> (memory \<times> u64) list \<Rightarrow> bytes list \<Rightarrow> run" where
  "main Args env order calls received =
     (case LoadKprobe env of
        Some err \<Rightarrow> Fatalf [] (bytes_of ''Failed to load kprobe: '' @ err @ [0x0A])
      | None \<Rightarrow>
          if length Args < 3
          then \<lparr>stdout = [], fatal = [],
                panicked = Some (IndexOutOfRange (if length Args < 2 then 1 else 2) (length Args)),
                exit_code = 2, started = False, captures = []\<rparr>
          else
            (case AttachUprobe env of
               Some err \<Rightarrow>
                 Fatalf [] (bytes_of ''could not attach uprobe to symbol: '' @ Args ! 2
                            @ bytes_of '': '' @ err)
             | None \<Rightarrow>
                 let caps = map (\<lambda>(mem, sp). handler order mem sp) calls in
                 (case InitPerfMap env of
                    Some err \<Rightarrow>
                      Fatalf caps (bytes_of ''Failed to init perf map: '' @ err @ [0x0A])
                  | None \<Rightarrow>
                      let header = Printf_line (bytes_of ''Method'') (bytes_of ''Path'');
                          (out, p) = consumer order received header
                      in \<lparr>stdout = out, fatal = [], panicked = p,
                          exit_code = (if p = None then 0 else 2), started = True,
                          captures = caps\<rparr>)))"

subsection \<open>A call frame to run the program on\<close>

text \<open>
  A memory in which only the bytes \<open>bs\<close> (fewer than \<open>2 ^ 64\<close> of them), placed at
  \<open>base\<close>, are readable.
\<close>

definition image :: "u64 \<Rightarrow> bytes \<Rightarrow> memory" where
  "image base bs a =
     (if a - base < of_nat (length bs) then Some (bs ! unat (a - base)) else None)"

text \<open>
  The memory of a process stopped at the entry of
  \<^verbatim>\<open>ping(w http.ResponseWriter, req *http.Request)\<close>, with the stack pointer at
  \<open>0x1000\<close>: the return address, the two words of \<^verbatim>\<open>w\<close> and \<^verbatim>\<open>req\<close>; at
  \<open>0x1020\<close> the first three words of the \<^verbatim>\<open>http.Request\<close> (the pointer and the
  length of \<^verbatim>\<open>Method\<close>, then \<^verbatim>\<open>URL\<close>); at \<open>0x1038\<close> the \<^verbatim>\<open>url.URL\<close>, whose
  eighth and ninth words are the pointer and the length of \<^verbatim>\<open>Path\<close>; from
  \<open>0x1080\<close> on the bytes \<open>heap\<close>.
\<close>

definition frame :: "ByteOrder \<Rightarrow> u64 \<Rightarrow> u64 \<Rightarrow> u64 \<Rightarrow> u64 \<Rightarrow> bytes \<Rightarrow> memory" where
  "frame order mptr mlen pptr plen heap =
     image 0x1000
       (concat (map (PutUint64 order) [0x63d544, 0x766a60, 0xc0000a6000, 0x1020])
        @ concat (map (PutUint64 order) [mptr, mlen, 0x1038])
        @ replicate 56 0 @ concat (map (PutUint64 order) [pptr, plen])
        @ heap)"

section \<open>Properties\<close>

subsection \<open>Byte order and reads\<close>

lemma le_u64_le_bytes: "le_u64 (le_bytes n w) = take_bit (8 * n) w"
proof (induction n arbitrary: w)
  case 0 show ?case by simp
next
  case (Suc n)
  show ?case
    by (rule bit_word_eqI) (auto simp: Suc bit_simps)
qed

lemma length_le_bytes: "length (le_bytes n w) = n"
  by (induction n arbitrary: w) simp_all

lemma length_PutUint64: "length (PutUint64 order v) = 8"
  by (cases order) (simp_all add: PutUint64_def length_le_bytes)

lemma Uint64_PutUint64: "Uint64 order (PutUint64 order v) = v"
proof -
  have "le_u64 (le_bytes 8 v) = v"
    by (simp add: le_u64_le_bytes take_bit_word_eq_self)
  then show ?thesis by (cases order) (simp_all add: Uint64_def PutUint64_def)
qed

lemma length_read_bytes: "read_bytes mem src n = Some bs \<Longrightarrow> length bs = n"
  by (induction n arbitrary: src bs) (auto split: option.splits)

lemma read_bytes_take:
  "read_bytes mem src n = Some bs \<Longrightarrow> k \<le> n \<Longrightarrow> read_bytes mem src k = Some (take k bs)"
proof (induction k arbitrary: src n bs)
  case 0 then show ?case by simp
next
  case (Suc k)
  then obtain m where n: "n = Suc m" by (cases n) auto
  with Suc.prems obtain b bs' where b: "mem src = Some b" and r: "read_bytes mem (src + 1) m = Some bs'"
    and bs: "bs = b # bs'"
    by (auto split: option.splits)
  from Suc.IH [OF r] Suc.prems n have "read_bytes mem (src + 1) k = Some (take k bs')" by simp
  with b bs show ?case by simp
qed

lemma length_bpf_probe_read:
  "sz \<le> length dst \<Longrightarrow> length (bpf_probe_read mem dst sz src) = length dst"
  by (auto simp: bpf_probe_read_def dest: length_read_bytes split: option.splits)

lemma probe_read_u64_ok:
  "read_bytes mem src 8 = Some (PutUint64 order v) \<Longrightarrow> probe_read_u64 order mem src = v"
  by (simp add: probe_read_u64_def bpf_probe_read_def Uint64_PutUint64 del: read_bytes.simps)

lemma Uint64_zero: "Uint64 order (replicate 8 0) = 0"
  by (cases order) (simp_all add: Uint64_def eval_nat_numeral)

lemma probe_read_u64_fail:
  "read_bytes mem src 8 = None \<Longrightarrow> probe_read_u64 order mem src = 0"
  unfolding probe_read_u64_def bpf_probe_read_def using Uint64_zero [of order]
  by (simp del: read_bytes.simps)

lemma bpf_probe_read_ok:
  "read_bytes mem src sz = Some bs \<Longrightarrow> sz \<le> n \<Longrightarrow>
   bpf_probe_read mem (replicate n 0) sz src = bs @ replicate (n - sz) 0"
  by (simp add: bpf_probe_read_def)

lemma bpf_probe_read_fail:
  "read_bytes mem src sz = None \<Longrightarrow> sz \<le> n \<Longrightarrow>
   bpf_probe_read mem (replicate n 0) sz src = replicate n 0"
  by (simp add: bpf_probe_read_def flip: replicate_add)

lemma bpf_probe_read_nothing:
  "bpf_probe_read mem dst 0 src = dst"
  by (simp add: bpf_probe_read_def)

lemma handler_unfold:
  "handler order mem sp =
     (let req = probe_read_u64 order mem (sp + 24);
          url = probe_read_u64 order mem (req + 16);
          ml = probe_read_u64 order mem (req + 8);
          pl = probe_read_u64 order mem (url + 64)
      in \<lparr>method_len = ml, path_len = pl,
          method_arr = bpf_probe_read mem (replicate 10 0) (min (unat ml) 10)
                     (probe_read_u64 order mem req),
          path = bpf_probe_read mem (replicate 128 0) (min (unat pl) 128)
                     (probe_read_u64 order mem (url + 56))\<rparr>)"
  by (auto simp: handler_def Let_def OFFSET_def sizeof_method_def sizeof_path_def
      word_less_nat_alt min_def)

lemma length_method_handler: "length (method_arr (handler order mem sp)) = 10"
  by (simp add: handler_unfold Let_def length_bpf_probe_read)

lemma length_path_handler: "length (path (handler order mem sp)) = 128"
  by (simp add: handler_unfold Let_def length_bpf_probe_read)

lemma perf_submit_layout:
  "perf_submit order e =
     PutUint64 order (method_len e) @ PutUint64 order (path_len e) @ method_arr e @ path e
       @ replicate 6 0"
  by (simp add: perf_submit_def struct_event_def c_sizeof_def align_up_def sizeof_method_def sizeof_path_def)

lemma c_offsets_event: "c_offsets 0 struct_event = [0, 8, 16, 26]"
  by (simp add: struct_event_def align_up_def sizeof_method_def sizeof_path_def)

lemma c_sizeof_event: "c_sizeof struct_event = 160"
  by (simp add: c_sizeof_def struct_event_def align_up_def sizeof_method_def sizeof_path_def)

lemma binary_Read_perf_submit:
  assumes "length (method_arr e) = 10" "length (path e) = 128"
  shows "binary_Read (perf_submit order e) order =
           Inr \<lparr>MethodLen = method_len e, PathLen = path_len e,
                Method = method_arr e, Path = path e\<rparr>"
  using assms
  by (simp add: binary_Read_def perf_submit_layout dataSize_def length_PutUint64 Let_def
      Uint64_PutUint64)


subsection \<open>What \<^verbatim>\<open>handler\<close> reads\<close>

lemma handler_method:
  assumes "read_bytes mem (sp + 24) 8 = Some (PutUint64 order req)"
      and "read_bytes mem req 8 = Some (PutUint64 order mdata)"
      and "read_bytes mem (req + 8) 8 = Some (PutUint64 order mlen)"
  shows "method_len (handler order mem sp) = mlen"
    and "method_arr (handler order mem sp) =
           bpf_probe_read mem (replicate 10 0) (min (unat mlen) 10) mdata"
  using assms by (simp_all add: handler_unfold Let_def probe_read_u64_ok del: read_bytes.simps)

lemma handler_path:
  assumes "read_bytes mem (sp + 24) 8 = Some (PutUint64 order req)"
      and "read_bytes mem (req + 16) 8 = Some (PutUint64 order url)"
      and "read_bytes mem (url + 56) 8 = Some (PutUint64 order pdata)"
      and "read_bytes mem (url + 64) 8 = Some (PutUint64 order plen)"
  shows "path_len (handler order mem sp) = plen"
    and "path (handler order mem sp) =
           bpf_probe_read mem (replicate 128 0) (min (unat plen) 128) pdata"
  using assms by (simp_all add: handler_unfold Let_def probe_read_u64_ok del: read_bytes.simps)

text \<open>
  C9. The offsets of the capture are constants of the program. When the six words are
  readable, the request pointer is the 64-bit word at \<open>sp + 3 * 8\<close>, the pointer and
  the length of the method are the words at \<open>req + 0\<close> and \<open>req + 8\<close>, the URL pointer
  is the word at \<open>req + 16\<close>, and the pointer and the length of the path are the words at
  \<open>url + 56\<close> and \<open>url + 64\<close>; the event is made of these values and of the bytes
  found at the two data pointers, and of nothing else. A target whose frame or structs
  are laid out differently gets whatever these addresses hold.
\<close>

theorem layout_descriptor_offsets:
  assumes "read_bytes mem (sp + 24) 8 = Some (PutUint64 order req)"
      and "read_bytes mem req 8 = Some (PutUint64 order mdata)"
      and "read_bytes mem (req + 8) 8 = Some (PutUint64 order mlen)"
      and "read_bytes mem (req + 16) 8 = Some (PutUint64 order url)"
      and "read_bytes mem (url + 56) 8 = Some (PutUint64 order pdata)"
      and "read_bytes mem (url + 64) 8 = Some (PutUint64 order plen)"
  shows "OFFSET sp 3 = sp + 24 \<and> OFFSET req 0 = req \<and> OFFSET req 1 = req + 8 \<and>
         OFFSET req 2 = req + 16 \<and> OFFSET url 7 = url + 56 \<and> OFFSET url 8 = url + 64 \<and>
         handler order mem sp =
           \<lparr>method_len = mlen, path_len = plen,
            method_arr = bpf_probe_read mem (replicate 10 0) (min (unat mlen) 10) mdata,
            path = bpf_probe_read mem (replicate 128 0) (min (unat plen) 128) pdata\<rparr>"
proof -
  have "handler order mem sp =
           \<lparr>method_len = mlen, path_len = plen,
            method_arr = bpf_probe_read mem (replicate 10 0) (min (unat mlen) 10) mdata,
            path = bpf_probe_read mem (replicate 128 0) (min (unat plen) 128) pdata\<rparr>"
    using handler_method [OF assms(1,2,3)] handler_path [OF assms(1,4,5,6)]
    by (cases "handler order mem sp") simp
  then show ?thesis by (simp add: OFFSET_def)
qed

theorem layout_descriptor_offsets_witness:
  "handler LittleEndian (frame LittleEndian 0x1080 3 0x1083 5 (bytes_of ''GET/ping'')) 0x1000 =
     \<lparr>method_len = 3, path_len = 5, method_arr = bytes_of ''GET'' @ replicate 7 0,
      path = bytes_of ''/ping'' @ replicate 123 0\<rparr>"
proof -
  let ?M = "frame LittleEndian 0x1080 3 0x1083 5 (bytes_of ''GET/ping'')"
  have 1: "read_bytes ?M (0x1000 + 24) 8 = Some (PutUint64 LittleEndian 0x1020)" by code_simp
  have 2: "read_bytes ?M 0x1020 8 = Some (PutUint64 LittleEndian 0x1080)" by code_simp
  have 3: "read_bytes ?M (0x1020 + 8) 8 = Some (PutUint64 LittleEndian 3)" by code_simp
  have 4: "read_bytes ?M (0x1020 + 16) 8 = Some (PutUint64 LittleEndian 0x1038)" by code_simp
  have 5: "read_bytes ?M (0x1038 + 56) 8 = Some (PutUint64 LittleEndian 0x1083)" by code_simp
  have 6: "read_bytes ?M (0x1038 + 64) 8 = Some (PutUint64 LittleEndian 5)" by code_simp
  have m: "bpf_probe_read ?M (replicate 10 0) (min (unat (3 :: u64)) 10) 0x1080 =
             bytes_of ''GET'' @ replicate 7 0" by code_simp
  have p: "bpf_probe_read ?M (replicate 128 0) (min (unat (5 :: u64)) 128) 0x1083 =
             bytes_of ''/ping'' @ replicate 123 0" by code_simp
  from layout_descriptor_offsets [OF 1 2 3 4 5 6] show ?thesis
    by (simp only: m p)
qed

subsection \<open>The record on the wire\<close>

text \<open>
  C4. The C struct has its four fields at offsets 0, 8, 16 and 26, with no padding
  between them: they end at byte 154, the size of the Go struct for
  \<^verbatim>\<open>encoding/binary\<close>. \<^verbatim>\<open>sizeof(struct event)\<close> is 160, since 154 is rounded up to
  the alignment of \<^verbatim>\<open>u64\<close>; the six bytes of tail padding follow the 128-byte array
  and the consumer does not read them. Every submitted record is the two lengths in the
  machine's byte order, then the two arrays, and \<^verbatim>\<open>binary.Read\<close> with the same byte
  order gives back the four fields.
\<close>

theorem record_layouts_agree:
  "c_offsets 0 struct_event = [0, 8, 16, 26] \<and>
   c_end 0 struct_event = dataSize \<and>
   c_sizeof struct_event = dataSize + 6 \<and>
   perf_submit order (handler order mem sp) =
     PutUint64 order (method_len (handler order mem sp))
     @ PutUint64 order (path_len (handler order mem sp))
     @ method_arr (handler order mem sp) @ path (handler order mem sp) @ replicate 6 0 \<and>
   length (perf_submit order (handler order mem sp)) = 160 \<and>
   binary_Read (perf_submit order (handler order mem sp)) order =
     Inr \<lparr>MethodLen = method_len (handler order mem sp),
          PathLen = path_len (handler order mem sp),
          Method = method_arr (handler order mem sp),
          Path = path (handler order mem sp)\<rparr>"
proof -
  have "c_end 0 struct_event = dataSize"
    by (simp add: struct_event_def align_up_def sizeof_method_def sizeof_path_def dataSize_def)
  moreover have "length (perf_submit order (handler order mem sp)) = 160"
    by (simp add: perf_submit_layout length_PutUint64 length_method_handler length_path_handler)
  ultimately show ?thesis
    using binary_Read_perf_submit [OF length_method_handler length_path_handler]
    by (simp add: c_offsets_event c_sizeof_event perf_submit_layout dataSize_def)
qed

subsection \<open>Capture of one field\<close>

lemma bpf_probe_read_unreadable:
  "mem src = None \<Longrightarrow> sz \<le> n \<Longrightarrow> bpf_probe_read mem (replicate n 0) sz src = replicate n 0"
  by (cases sz) (simp_all add: bpf_probe_read_def flip: replicate_add replicate_Suc)

lemma method_captured:
  assumes "read_bytes mem (sp + 24) 8 = Some (PutUint64 order req)"
      and "read_bytes mem req 8 = Some (PutUint64 order mdata)"
      and "read_bytes mem (req + 8) 8 = Some (PutUint64 order mlen)"
      and "read_bytes mem mdata (min (unat mlen) 10) = Some v"
  shows "method_len (handler order mem sp) = mlen \<and>
         method_arr (handler order mem sp) = v @ replicate (10 - length v) 0"
  using handler_method [OF assms(1,2,3)] bpf_probe_read_ok [OF assms(4), of 10]
    length_read_bytes [OF assms(4)]
  by simp

lemma path_captured:
  assumes "read_bytes mem (sp + 24) 8 = Some (PutUint64 order req)"
      and "read_bytes mem (req + 16) 8 = Some (PutUint64 order url)"
      and "read_bytes mem (url + 56) 8 = Some (PutUint64 order pdata)"
      and "read_bytes mem (url + 64) 8 = Some (PutUint64 order plen)"
      and "read_bytes mem pdata (min (unat plen) 128) = Some v"
  shows "path_len (handler order mem sp) = plen \<and>
         path (handler order mem sp) = v @ replicate (128 - length v) 0"
  using handler_path [OF assms(1,2,3,4)] bpf_probe_read_ok [OF assms(5), of 128]
    length_read_bytes [OF assms(5)]
  by simp

lemma method_data_unreadable:
  assumes "read_bytes mem (sp + 24) 8 = Some (PutUint64 order req)"
      and "read_bytes mem req 8 = Some (PutUint64 order mdata)"
      and "read_bytes mem (req + 8) 8 = Some (PutUint64 order mlen)"
      and "read_bytes mem mdata (min (unat mlen) 10) = None"
  shows "method_len (handler order mem sp) = mlen \<and>
         method_arr (handler order mem sp) = replicate 10 0"
  using handler_method [OF assms(1,2,3)] bpf_probe_read_fail [OF assms(4), of 10]
  by simp

lemma path_data_unreadable:
  assumes "read_bytes mem (sp + 24) 8 = Some (PutUint64 order req)"
      and "read_bytes mem (req + 16) 8 = Some (PutUint64 order url)"
      and "read_bytes mem (url + 56) 8 = Some (PutUint64 order pdata)"
      and "read_bytes mem (url + 64) 8 = Some (PutUint64 order plen)"
      and "read_bytes mem pdata (min (unat plen) 128) = None"
  shows "path_len (handler order mem sp) = plen \<and>
         path (handler order mem sp) = replicate 128 0"
  using handler_path [OF assms(1,2,3,4)] bpf_probe_read_fail [OF assms(5), of 128]
  by simp

lemma method_len_unreadable:
  assumes "read_bytes mem (sp + 24) 8 = Some (PutUint64 order req)"
      and "read_bytes mem (req + 8) 8 = None"
  shows "method_len (handler order mem sp) = 0 \<and>
         method_arr (handler order mem sp) = replicate 10 0"
  using assms
  by (simp add: handler_unfold Let_def probe_read_u64_ok probe_read_u64_fail
      bpf_probe_read_nothing del: read_bytes.simps)

lemma method_pointer_unreadable:
  assumes "read_bytes mem (sp + 24) 8 = Some (PutUint64 order req)"
      and "read_bytes mem req 8 = None" and "mem 0 = None"
  shows "method_arr (handler order mem sp) = replicate 10 0"
  using assms
  by (simp add: handler_unfold Let_def probe_read_u64_ok probe_read_u64_fail
      bpf_probe_read_unreadable del: read_bytes.simps)

lemma path_len_unreadable:
  assumes "read_bytes mem (sp + 24) 8 = Some (PutUint64 order req)"
      and "read_bytes mem (req + 16) 8 = Some (PutUint64 order url)"
      and "read_bytes mem (url + 64) 8 = None"
  shows "path_len (handler order mem sp) = 0 \<and> path (handler order mem sp) = replicate 128 0"
  using assms
  by (simp add: handler_unfold Let_def probe_read_u64_ok probe_read_u64_fail
      bpf_probe_read_nothing del: read_bytes.simps)

lemma path_pointer_unreadable:
  assumes "read_bytes mem (sp + 24) 8 = Some (PutUint64 order req)"
      and "read_bytes mem (req + 16) 8 = Some (PutUint64 order url)"
      and "read_bytes mem (url + 56) 8 = None" and "mem 0 = None"
  shows "path (handler order mem sp) = replicate 128 0"
  using assms
  by (simp add: handler_unfold Let_def probe_read_u64_ok probe_read_u64_fail
      bpf_probe_read_unreadable del: read_bytes.simps)

lemma url_unreadable:
  assumes "read_bytes mem (sp + 24) 8 = Some (PutUint64 order req)"
      and "read_bytes mem (req + 16) 8 = None" and "read_bytes mem 64 8 = None"
  shows "path_len (handler order mem sp) = 0 \<and> path (handler order mem sp) = replicate 128 0"
  using assms
  by (simp add: handler_unfold Let_def probe_read_u64_ok probe_read_u64_fail
      bpf_probe_read_nothing del: read_bytes.simps)

lemma emitted:
  "length (perf_submit order (handler order mem sp)) = 160 \<and>
   binary_Read (perf_submit order (handler order mem sp)) order =
     Inr \<lparr>MethodLen = method_len (handler order mem sp),
          PathLen = path_len (handler order mem sp),
          Method = method_arr (handler order mem sp),
          Path = path (handler order mem sp)\<rparr>"
  using binary_Read_perf_submit [OF length_method_handler length_path_handler]
  by (simp add: perf_submit_layout length_PutUint64 length_method_handler length_path_handler)

lemma method_truncated:
  assumes "read_bytes mem (sp + 24) 8 = Some (PutUint64 order req)"
      and "read_bytes mem req 8 = Some (PutUint64 order mdata)"
      and "read_bytes mem (req + 8) 8 = Some (PutUint64 order mlen)"
      and "10 < unat mlen" and "read_bytes mem mdata 10 = Some v"
  shows "method_arr (handler order mem sp) = v \<and>
         method_len (handler order mem sp) = mlen \<and>
         (\<exists>e. binary_Read (perf_submit order (handler order mem sp)) order = Inr e \<and>
              MethodLen e = mlen \<and> Method e = v)"
proof -
  from assms(4) have "min (unat mlen) 10 = 10" by simp
  with assms(5) have "read_bytes mem mdata (min (unat mlen) 10) = Some v" by simp
  from method_captured [OF assms(1,2,3) this] length_read_bytes [OF assms(5)]
  have "method_len (handler order mem sp) = mlen" "method_arr (handler order mem sp) = v"
    by simp_all
  then show ?thesis using emitted [of order mem sp] by simp
qed

lemma path_truncated:
  assumes "read_bytes mem (sp + 24) 8 = Some (PutUint64 order req)"
      and "read_bytes mem (req + 16) 8 = Some (PutUint64 order url)"
      and "read_bytes mem (url + 56) 8 = Some (PutUint64 order pdata)"
      and "read_bytes mem (url + 64) 8 = Some (PutUint64 order plen)"
      and "128 < unat plen" and "read_bytes mem pdata 128 = Some v"
  shows "path (handler order mem sp) = v \<and>
         path_len (handler order mem sp) = plen \<and>
         (\<exists>e. binary_Read (perf_submit order (handler order mem sp)) order = Inr e \<and>
              PathLen e = plen \<and> Path e = v)"
proof -
  from assms(5) have "min (unat plen) 128 = 128" by simp
  with assms(6) have "read_bytes mem pdata (min (unat plen) 128) = Some v" by simp
  from path_captured [OF assms(1,2,3,4) this] length_read_bytes [OF assms(6)]
  have "path_len (handler order mem sp) = plen" "path (handler order mem sp) = v"
    by simp_all
  then show ?thesis using emitted [of order mem sp] by simp
qed

text \<open>
  C2. A field whose declared length is larger than its array: with the request pointer
  readable, if the method's declared length \<open>mlen\<close> is more than 10 and the ten bytes
  at its data pointer are readable, the array \<^verbatim>\<open>e.method\<close> holds exactly these ten
  bytes and \<^verbatim>\<open>e.method_len\<close> holds \<open>mlen\<close> itself, not 10; the submitted record,
  read back, still gives the length \<open>mlen\<close>. The same for the path with 128. Nothing
  is asked of the bytes after the first ten (or 128): they are not read.
\<close>

theorem truncated_capture_keeps_declared_length:
  assumes req: "read_bytes mem (sp + 24) 8 = Some (PutUint64 order req)"
  shows
    "(\<forall>mdata mlen v.
        read_bytes mem req 8 = Some (PutUint64 order mdata) \<and>
        read_bytes mem (req + 8) 8 = Some (PutUint64 order mlen) \<and>
        10 < unat mlen \<and> read_bytes mem mdata 10 = Some v \<longrightarrow>
        method_arr (handler order mem sp) = v \<and>
        method_len (handler order mem sp) = mlen \<and>
        (\<exists>e. binary_Read (perf_submit order (handler order mem sp)) order = Inr e \<and>
             MethodLen e = mlen \<and> Method e = v)) \<and>
     (\<forall>url pdata plen v.
        read_bytes mem (req + 16) 8 = Some (PutUint64 order url) \<and>
        read_bytes mem (url + 56) 8 = Some (PutUint64 order pdata) \<and>
        read_bytes mem (url + 64) 8 = Some (PutUint64 order plen) \<and>
        128 < unat plen \<and> read_bytes mem pdata 128 = Some v \<longrightarrow>
        path (handler order mem sp) = v \<and>
        path_len (handler order mem sp) = plen \<and>
        (\<exists>e. binary_Read (perf_submit order (handler order mem sp)) order = Inr e \<and>
             PathLen e = plen \<and> Path e = v))"
proof -
  have "method_arr (handler order mem sp) = v \<and>
        method_len (handler order mem sp) = mlen \<and>
        (\<exists>e. binary_Read (perf_submit order (handler order mem sp)) order = Inr e \<and>
             MethodLen e = mlen \<and> Method e = v)"
    if "read_bytes mem req 8 = Some (PutUint64 order mdata) \<and>
        read_bytes mem (req + 8) 8 = Some (PutUint64 order mlen) \<and>
        10 < unat mlen \<and> read_bytes mem mdata 10 = Some v" for mdata mlen v
    using that method_truncated [OF req] by blast
  moreover have "path (handler order mem sp) = v \<and>
        path_len (handler order mem sp) = plen \<and>
        (\<exists>e. binary_Read (perf_submit order (handler order mem sp)) order = Inr e \<and>
             PathLen e = plen \<and> Path e = v)"
    if "read_bytes mem (req + 16) 8 = Some (PutUint64 order url) \<and>
        read_bytes mem (url + 56) 8 = Some (PutUint64 order pdata) \<and>
        read_bytes mem (url + 64) 8 = Some (PutUint64 order plen) \<and>
        128 < unat plen \<and> read_bytes mem pdata 128 = Some v" for url pdata plen v
    using that path_truncated [OF req] by blast
  ultimately show ?thesis by blast
qed

theorem truncated_capture_keeps_declared_length_witness:
  "method_arr (handler LittleEndian
      (frame LittleEndian 0x1080 11 0x108B 200 (bytes_of ''UNSUBSCRIBE'' @ replicate 200 0x61))
      0x1000) = bytes_of ''UNSUBSCRIB'' \<and>
   method_len (handler LittleEndian
      (frame LittleEndian 0x1080 11 0x108B 200 (bytes_of ''UNSUBSCRIBE'' @ replicate 200 0x61))
      0x1000) = 11 \<and>
   path (handler LittleEndian
      (frame LittleEndian 0x1080 11 0x108B 200 (bytes_of ''UNSUBSCRIBE'' @ replicate 200 0x61))
      0x1000) = replicate 128 0x61 \<and>
   path_len (handler LittleEndian
      (frame LittleEndian 0x1080 11 0x108B 200 (bytes_of ''UNSUBSCRIBE'' @ replicate 200 0x61))
      0x1000) = 200"
proof -
  let ?M = "frame LittleEndian 0x1080 11 0x108B 200 (bytes_of ''UNSUBSCRIBE'' @ replicate 200 0x61)"
  have 1: "read_bytes ?M (0x1000 + 24) 8 = Some (PutUint64 LittleEndian 0x1020)" by code_simp
  have 2: "read_bytes ?M 0x1020 8 = Some (PutUint64 LittleEndian 0x1080)" by code_simp
  have 3: "read_bytes ?M (0x1020 + 8) 8 = Some (PutUint64 LittleEndian 11)" by code_simp
  have 4: "read_bytes ?M 0x1080 10 = Some (bytes_of ''UNSUBSCRIB'')" by code_simp
  have 5: "read_bytes ?M (0x1020 + 16) 8 = Some (PutUint64 LittleEndian 0x1038)" by code_simp
  have 6: "read_bytes ?M (0x1038 + 56) 8 = Some (PutUint64 LittleEndian 0x108B)" by code_simp
  have 7: "read_bytes ?M (0x1038 + 64) 8 = Some (PutUint64 LittleEndian 200)" by code_simp
  have 8: "read_bytes ?M 0x108B 128 = Some (replicate 128 0x61)" by code_simp
  have 9: "10 < unat (11 :: u64)" "128 < unat (200 :: u64)" by simp_all
  note T = truncated_capture_keeps_declared_length [OF 1]
  from T 2 3 4 9(1) have "method_arr (handler LittleEndian ?M 0x1000) = bytes_of ''UNSUBSCRIB'' \<and>
      method_len (handler LittleEndian ?M 0x1000) = 11"
    by blast
  moreover from T 5 6 7 8 9(2) have "path (handler LittleEndian ?M 0x1000) = replicate 128 0x61 \<and>
      path_len (handler LittleEndian ?M 0x1000) = 200"
    by blast
  ultimately show ?thesis by blast
qed

text \<open>
  C5. A read that fails does not stop \<^verbatim>\<open>handler\<close>. With the request pointer readable:
  if the length word of the method, its pointer word (with address 0 not readable) or
  its data cannot be read, \<^verbatim>\<open>e.method\<close> stays all zero; whenever the three reads of
  the method succeed it is captured, whatever happens to the path; the same holds for
  the path, whose chain starts with the URL pointer; and in every case the record is
  submitted, 160 bytes that the consumer reads back as the event.
\<close>

theorem failed_read_leaves_field_zero:
  assumes req: "read_bytes mem (sp + 24) 8 = Some (PutUint64 order req)"
  shows
    "(read_bytes mem (req + 8) 8 = None \<longrightarrow>
        method_len (handler order mem sp) = 0 \<and>
        method_arr (handler order mem sp) = replicate 10 0) \<and>
     (read_bytes mem req 8 = None \<and> mem 0 = None \<longrightarrow>
        method_arr (handler order mem sp) = replicate 10 0) \<and>
     (\<forall>mdata mlen.
        read_bytes mem req 8 = Some (PutUint64 order mdata) \<and>
        read_bytes mem (req + 8) 8 = Some (PutUint64 order mlen) \<and>
        read_bytes mem mdata (min (unat mlen) 10) = None \<longrightarrow>
        method_len (handler order mem sp) = mlen \<and>
        method_arr (handler order mem sp) = replicate 10 0) \<and>
     (\<forall>mdata mlen v.
        read_bytes mem req 8 = Some (PutUint64 order mdata) \<and>
        read_bytes mem (req + 8) 8 = Some (PutUint64 order mlen) \<and>
        read_bytes mem mdata (min (unat mlen) 10) = Some v \<longrightarrow>
        method_len (handler order mem sp) = mlen \<and>
        method_arr (handler order mem sp) = v @ replicate (10 - length v) 0) \<and>
     (read_bytes mem (req + 16) 8 = None \<and> read_bytes mem 64 8 = None \<longrightarrow>
        path_len (handler order mem sp) = 0 \<and>
        path (handler order mem sp) = replicate 128 0) \<and>
     (\<forall>url.
        read_bytes mem (req + 16) 8 = Some (PutUint64 order url) \<longrightarrow>
        (read_bytes mem (url + 64) 8 = None \<longrightarrow>
           path_len (handler order mem sp) = 0 \<and>
           path (handler order mem sp) = replicate 128 0) \<and>
        (read_bytes mem (url + 56) 8 = None \<and> mem 0 = None \<longrightarrow>
           path (handler order mem sp) = replicate 128 0) \<and>
        (\<forall>pdata plen.
           read_bytes mem (url + 56) 8 = Some (PutUint64 order pdata) \<and>
           read_bytes mem (url + 64) 8 = Some (PutUint64 order plen) \<and>
           read_bytes mem pdata (min (unat plen) 128) = None \<longrightarrow>
           path_len (handler order mem sp) = plen \<and>
           path (handler order mem sp) = replicate 128 0) \<and>
        (\<forall>pdata plen v.
           read_bytes mem (url + 56) 8 = Some (PutUint64 order pdata) \<and>
           read_bytes mem (url + 64) 8 = Some (PutUint64 order plen) \<and>
           read_bytes mem pdata (min (unat plen) 128) = Some v \<longrightarrow>
           path_len (handler order mem sp) = plen \<and>
           path (handler order mem sp) = v @ replicate (128 - length v) 0)) \<and>
     length (perf_submit order (handler order mem sp)) = 160 \<and>
     binary_Read (perf_submit order (handler order mem sp)) order =
       Inr \<lparr>MethodLen = method_len (handler order mem sp),
            PathLen = path_len (handler order mem sp),
            Method = method_arr (handler order mem sp),
            Path = path (handler order mem sp)\<rparr>"
proof (intro conjI allI impI; (elim conjE)?)
  show "length (perf_submit order (handler order mem sp)) = 160"
    using emitted by blast
  show "binary_Read (perf_submit order (handler order mem sp)) order =
       Inr \<lparr>MethodLen = method_len (handler order mem sp),
            PathLen = path_len (handler order mem sp),
            Method = method_arr (handler order mem sp),
            Path = path (handler order mem sp)\<rparr>"
    using emitted by blast
qed (use req in \<open>simp_all only: method_len_unreadable method_pointer_unreadable
      method_data_unreadable method_captured url_unreadable path_len_unreadable
      path_pointer_unreadable path_data_unreadable path_captured\<close>)

theorem failed_read_leaves_field_zero_witness:
  "method_len (handler LittleEndian (frame LittleEndian 0x10 3 0x1083 5 (bytes_of ''GET/ping'')) 0x1000) = 3 \<and>
   method_arr (handler LittleEndian (frame LittleEndian 0x10 3 0x1083 5 (bytes_of ''GET/ping'')) 0x1000) = replicate 10 0 \<and>
   path_len (handler LittleEndian (frame LittleEndian 0x10 3 0x1083 5 (bytes_of ''GET/ping'')) 0x1000) = 5 \<and>
   path (handler LittleEndian (frame LittleEndian 0x10 3 0x1083 5 (bytes_of ''GET/ping'')) 0x1000) =
     bytes_of ''/ping'' @ replicate 123 0 \<and>
   length (perf_submit LittleEndian
     (handler LittleEndian (frame LittleEndian 0x10 3 0x1083 5 (bytes_of ''GET/ping'')) 0x1000)) = 160 \<and>
   method_len (handler LittleEndian (image 0x1000 (PutUint64 LittleEndian 0x5000)) (0x1000 - 24)) = 0 \<and>
   path (handler LittleEndian (image 0x1000 (PutUint64 LittleEndian 0x5000)) (0x1000 - 24)) = replicate 128 0"
proof -
  let ?A = "frame LittleEndian 0x10 3 0x1083 5 (bytes_of ''GET/ping'')"
  have 1: "read_bytes ?A (0x1000 + 24) 8 = Some (PutUint64 LittleEndian 0x1020)" by code_simp
  have 2: "read_bytes ?A 0x1020 8 = Some (PutUint64 LittleEndian 0x10)" by code_simp
  have 3: "read_bytes ?A (0x1020 + 8) 8 = Some (PutUint64 LittleEndian 3)" by code_simp
  have 4: "read_bytes ?A 0x10 (min (unat (3 :: u64)) 10) = None" by code_simp
  have 5: "read_bytes ?A (0x1020 + 16) 8 = Some (PutUint64 LittleEndian 0x1038)" by code_simp
  have 6: "read_bytes ?A (0x1038 + 56) 8 = Some (PutUint64 LittleEndian 0x1083)" by code_simp
  have 7: "read_bytes ?A (0x1038 + 64) 8 = Some (PutUint64 LittleEndian 5)" by code_simp
  have 8: "read_bytes ?A 0x1083 (min (unat (5 :: u64)) 128) = Some (bytes_of ''/ping'')"
    by code_simp
  note A = failed_read_leaves_field_zero [OF 1]
  from A 2 3 4 have m: "method_len (handler LittleEndian ?A 0x1000) = 3 \<and>
      method_arr (handler LittleEndian ?A 0x1000) = replicate 10 0"
    by blast
  from A 5 6 7 8 have p: "path_len (handler LittleEndian ?A 0x1000) = 5 \<and>
      path (handler LittleEndian ?A 0x1000) =
        bytes_of ''/ping'' @ replicate (128 - length (bytes_of ''/ping'')) 0"
    by blast
  from A have l: "length (perf_submit LittleEndian (handler LittleEndian ?A 0x1000)) = 160"
    by blast
  let ?B = "image 0x1000 (PutUint64 LittleEndian 0x5000)"
  have b1: "read_bytes ?B (0x1000 - 24 + 24) 8 = Some (PutUint64 LittleEndian 0x5000)"
    by code_simp
  have b2: "read_bytes ?B (0x5000 + 8) 8 = None" by code_simp
  have b3: "read_bytes ?B (0x5000 + 16) 8 = None" by code_simp
  have b4: "read_bytes ?B 64 8 = None" by code_simp
  note B = failed_read_leaves_field_zero [OF b1]
  from B b2 have bm: "method_len (handler LittleEndian ?B (0x1000 - 24)) = 0" by blast
  from B b3 b4 have bp: "path (handler LittleEndian ?B (0x1000 - 24)) = replicate 128 0"
    by blast
  from m p l bm bp show ?thesis by (simp add: bytes_of_def)
qed

subsection \<open>Capture, then decode\<close>

lemma slice_to_padded: "length v = unat n \<Longrightarrow> slice_to (v @ replicate k 0) n = Inr v"
  by (simp add: slice_to_def)

lemma method_round_trip:
  assumes "read_bytes mem (sp + 24) 8 = Some (PutUint64 order req)"
      and "read_bytes mem req 8 = Some (PutUint64 order mdata)"
      and "read_bytes mem (req + 8) 8 = Some (PutUint64 order mlen)"
      and "unat mlen \<le> 10" and "read_bytes mem mdata (unat mlen) = Some v"
  shows "slice_to (method_arr (handler order mem sp)) (method_len (handler order mem sp)) = Inr v"
proof -
  from assms(4) have "min (unat mlen) 10 = unat mlen" by simp
  with assms(5) have "read_bytes mem mdata (min (unat mlen) 10) = Some v" by simp
  from method_captured [OF assms(1,2,3) this] length_read_bytes [OF assms(5)]
  show ?thesis by (simp add: slice_to_padded)
qed

lemma path_round_trip:
  assumes "read_bytes mem (sp + 24) 8 = Some (PutUint64 order req)"
      and "read_bytes mem (req + 16) 8 = Some (PutUint64 order url)"
      and "read_bytes mem (url + 56) 8 = Some (PutUint64 order pdata)"
      and "read_bytes mem (url + 64) 8 = Some (PutUint64 order plen)"
      and "unat plen \<le> 128" and "read_bytes mem pdata (unat plen) = Some w"
  shows "slice_to (path (handler order mem sp)) (path_len (handler order mem sp)) = Inr w"
proof -
  from assms(5) have "min (unat plen) 128 = unat plen" by simp
  with assms(6) have "read_bytes mem pdata (min (unat plen) 128) = Some w" by simp
  from path_captured [OF assms(1,2,3,4) this] length_read_bytes [OF assms(6)]
  show ?thesis by (simp add: slice_to_padded)
qed

lemma consume_decoded:
  assumes "binary_Read data order = Inr e"
      and "slice_to (Method e) (MethodLen e) = Inr v"
      and "slice_to (Path e) (PathLen e) = Inr w"
  shows "method_path e = Inr (v, w)" and "consume order data = Inr (Printf_line v w)"
  using assms by (simp_all add: method_path_def consume_def)

lemma method_path_panics:
  "10 < unat (MethodLen e) \<Longrightarrow> length (Method e) = 10 \<Longrightarrow>
   method_path e = Inl (SliceBoundsOutOfRange (unat (MethodLen e)) 10)"
  "unat (MethodLen e) \<le> 10 \<Longrightarrow> length (Method e) = 10 \<Longrightarrow> 128 < unat (PathLen e) \<Longrightarrow>
   length (Path e) = 128 \<Longrightarrow>
   method_path e = Inl (SliceBoundsOutOfRange (unat (PathLen e)) 128)"
  by (simp_all add: method_path_def slice_to_def)

text \<open>
  Capture followed by decoding, when it goes through. With the request pointer readable,
  the consumer reads the submitted record back as an event \<open>e\<close>; the slice expression of
  a field whose declared length fits its array gives back the field's bytes; and when
  both fields fit, the loop body decodes the pair and prints its line.
\<close>

lemma short_values_round_trip:
  assumes req: "read_bytes mem (sp + 24) 8 = Some (PutUint64 order req)"
  shows
    "\<exists>e. binary_Read (perf_submit order (handler order mem sp)) order = Inr e \<and>
       (\<forall>mdata mlen v.
          read_bytes mem req 8 = Some (PutUint64 order mdata) \<and>
          read_bytes mem (req + 8) 8 = Some (PutUint64 order mlen) \<and>
          unat mlen \<le> 10 \<and> read_bytes mem mdata (unat mlen) = Some v \<longrightarrow>
          slice_to (Method e) (MethodLen e) = Inr v) \<and>
       (\<forall>url pdata plen w.
          read_bytes mem (req + 16) 8 = Some (PutUint64 order url) \<and>
          read_bytes mem (url + 56) 8 = Some (PutUint64 order pdata) \<and>
          read_bytes mem (url + 64) 8 = Some (PutUint64 order plen) \<and>
          unat plen \<le> 128 \<and> read_bytes mem pdata (unat plen) = Some w \<longrightarrow>
          slice_to (Path e) (PathLen e) = Inr w) \<and>
       (\<forall>mdata mlen v url pdata plen w.
          read_bytes mem req 8 = Some (PutUint64 order mdata) \<and>
          read_bytes mem (req + 8) 8 = Some (PutUint64 order mlen) \<and>
          unat mlen \<le> 10 \<and> read_bytes mem mdata (unat mlen) = Some v \<and>
          read_bytes mem (req + 16) 8 = Some (PutUint64 order url) \<and>
          read_bytes mem (url + 56) 8 = Some (PutUint64 order pdata) \<and>
          read_bytes mem (url + 64) 8 = Some (PutUint64 order plen) \<and>
          unat plen \<le> 128 \<and> read_bytes mem pdata (unat plen) = Some w \<longrightarrow>
          method_path e = Inr (v, w) \<and>
          consume order (perf_submit order (handler order mem sp)) = Inr (Printf_line v w))"
proof -
  let ?h = "handler order mem sp"
  let ?e = "\<lparr>MethodLen = method_len ?h, PathLen = path_len ?h,
             Method = method_arr ?h, Path = path ?h\<rparr>"
  have e: "binary_Read (perf_submit order ?h) order = Inr ?e"
    using emitted by blast
  have m: "slice_to (Method ?e) (MethodLen ?e) = Inr v"
    if "read_bytes mem req 8 = Some (PutUint64 order mdata) \<and>
        read_bytes mem (req + 8) 8 = Some (PutUint64 order mlen) \<and>
        unat mlen \<le> 10 \<and> read_bytes mem mdata (unat mlen) = Some v" for mdata mlen v
    using that method_round_trip [OF req] by simp
  have p: "slice_to (Path ?e) (PathLen ?e) = Inr w"
    if "read_bytes mem (req + 16) 8 = Some (PutUint64 order url) \<and>
        read_bytes mem (url + 56) 8 = Some (PutUint64 order pdata) \<and>
        read_bytes mem (url + 64) 8 = Some (PutUint64 order plen) \<and>
        unat plen \<le> 128 \<and> read_bytes mem pdata (unat plen) = Some w" for url pdata plen w
    using that path_round_trip [OF req] by simp
  have b: "method_path ?e = Inr (v, w) \<and>
           consume order (perf_submit order ?h) = Inr (Printf_line v w)"
    if "read_bytes mem req 8 = Some (PutUint64 order mdata) \<and>
        read_bytes mem (req + 8) 8 = Some (PutUint64 order mlen) \<and>
        unat mlen \<le> 10 \<and> read_bytes mem mdata (unat mlen) = Some v \<and>
        read_bytes mem (req + 16) 8 = Some (PutUint64 order url) \<and>
        read_bytes mem (url + 56) 8 = Some (PutUint64 order pdata) \<and>
        read_bytes mem (url + 64) 8 = Some (PutUint64 order plen) \<and>
        unat plen \<le> 128 \<and> read_bytes mem pdata (unat plen) = Some w"
    for mdata mlen v url pdata plen w
    using consume_decoded [OF e m p] that by blast
  from e m p b show ?thesis by blast
qed

text \<open>
  C3. A field whose true length is within its capacity is to come back unchanged from
  capture followed by decoding. It does not when the other field is too long. For
  \<^verbatim>\<open>GET\<close> with a path of 129 bytes the method, three bytes, is captured whole, but the
  statement that decodes both fields panics on the path and no method is decoded. For
  the method \<^verbatim>\<open>UNSUBSCRIBE\<close>, eleven bytes, with the path \<^verbatim>\<open>/ping\<close>, the path is
  captured whole, but the statement panics on the method and the path is never sliced.
\<close>

theorem short_field_lost_when_other_field_too_long:
  "method_len (handler LittleEndian
     (frame LittleEndian 0x1080 3 0x1083 129 (bytes_of ''GET'' @ replicate 129 0x61)) 0x1000) = 3 \<and>
   method_arr (handler LittleEndian
     (frame LittleEndian 0x1080 3 0x1083 129 (bytes_of ''GET'' @ replicate 129 0x61)) 0x1000) =
     bytes_of ''GET'' @ replicate 7 0 \<and>
   (case binary_Read (perf_submit LittleEndian (handler LittleEndian
       (frame LittleEndian 0x1080 3 0x1083 129 (bytes_of ''GET'' @ replicate 129 0x61)) 0x1000))
       LittleEndian of
      Inl err \<Rightarrow> False
    | Inr e \<Rightarrow> method_path e = Inl (SliceBoundsOutOfRange 129 128)) \<and>
   path_len (handler LittleEndian
     (frame LittleEndian 0x1080 11 0x108B 5 (bytes_of ''UNSUBSCRIBE/ping'')) 0x1000) = 5 \<and>
   path (handler LittleEndian
     (frame LittleEndian 0x1080 11 0x108B 5 (bytes_of ''UNSUBSCRIBE/ping'')) 0x1000) =
     bytes_of ''/ping'' @ replicate 123 0 \<and>
   (case binary_Read (perf_submit LittleEndian (handler LittleEndian
       (frame LittleEndian 0x1080 11 0x108B 5 (bytes_of ''UNSUBSCRIBE/ping'')) 0x1000))
       LittleEndian of
      Inl err \<Rightarrow> False
    | Inr e \<Rightarrow> method_path e = Inl (SliceBoundsOutOfRange 11 10))"
  by code_simp

text \<open>
  C1. The decoder is to take the smaller of the stored length and the capacity of the
  array for each field, and never to fail. The consumer does not clamp: for a request
  \<^verbatim>\<open>GET\<close> whose path is 129 bytes long, \<^verbatim>\<open>handler\<close> stores the length 129 beside
  the 128 bytes it copied, and the loop body ends in the panic of the slice expression
  \<^verbatim>\<open>e.Path[:e.PathLen]\<close>, slice bounds out of range \<open>[:129]\<close> with capacity 128.
\<close>

theorem consumer_panics_when_length_exceeds_capacity:
  "consume LittleEndian (perf_submit LittleEndian
     (handler LittleEndian
        (frame LittleEndian 0x1080 3 0x1083 129 (bytes_of ''GET'' @ replicate 129 0x61)) 0x1000))
   = Inl (SliceBoundsOutOfRange 129 128)"
  by code_simp

subsection \<open>Entries that are too short\<close>

text \<open>
  C10. The decoded record has \<open>dataSize = 154\<close> bytes. For an entry with fewer bytes
  \<^verbatim>\<open>binary.Read\<close> returns an error; the loop body prints the line
  \<^verbatim>\<open>failed to decode packet:\<close> with the error's text and nothing else, and the loop goes
  on with the entries that follow.
\<close>

theorem short_entry_is_skipped:
  assumes "length data < 154"
  shows "dataSize = 154 \<and>
     (\<exists>err. binary_Read data order = Inl err \<and>
        consume order data = Inr (bytes_of ''failed to decode packet: '' @ Error err @ [0x0A]) \<and>
        consumer order (data # rest) out =
          consumer order rest
            (out @ bytes_of ''failed to decode packet: '' @ Error err @ [0x0A]))"
  using assms by (simp add: dataSize_def binary_Read_def consume_def Printf_failed_def)

theorem short_entry_is_skipped_witness:
  "consumer LittleEndian [replicate 153 0, []] [] =
     (bytes_of ''failed to decode packet: unexpected EOF'' @ [0x0A]
      @ bytes_of ''failed to decode packet: EOF'' @ [0x0A], None)"
proof -
  have 1: "length (replicate 153 (0 :: byte)) < 154" by simp
  have 2: "length ([] :: bytes) < 154" by simp
  from short_entry_is_skipped [OF 1, of LittleEndian "[[]]" "[]"]
  obtain err where a: "binary_Read (replicate 153 0) LittleEndian = Inl err"
    and b: "consumer LittleEndian [replicate 153 0, []] [] =
          consumer LittleEndian [[]]
            ([] @ bytes_of ''failed to decode packet: '' @ Error err @ [0x0A])"
    by blast
  have "binary_Read (replicate 153 0) LittleEndian = Inl ErrUnexpectedEOF"
    by (simp add: binary_Read_def dataSize_def)
  with a have err: "err = ErrUnexpectedEOF" by simp
  from short_entry_is_skipped [OF 2, of LittleEndian "[]"
      "bytes_of ''failed to decode packet: '' @ Error ErrUnexpectedEOF @ [0x0A]"]
  obtain err' where c: "binary_Read [] LittleEndian = Inl err'"
    and d: "consumer LittleEndian [[]]
             (bytes_of ''failed to decode packet: '' @ Error ErrUnexpectedEOF @ [0x0A]) =
          consumer LittleEndian []
            ((bytes_of ''failed to decode packet: '' @ Error ErrUnexpectedEOF @ [0x0A])
              @ bytes_of ''failed to decode packet: '' @ Error err' @ [0x0A])"
    by blast
  have "binary_Read [] LittleEndian = Inl EOF"
    by (simp add: binary_Read_def dataSize_def)
  with c have err': "err' = EOF" by simp
  from b d err err' show ?thesis by (simp add: bytes_of_def)
qed

subsection \<open>Setup and exit\<close>

text \<open>
  C7 as stated: on each of the three setup failures the process ends with a non-zero
  exit code and a message before any capture begins. This fails for the third one. The
  probe is attached before \<^verbatim>\<open>InitPerfMap\<close> is called, so when that call fails
  \<^verbatim>\<open>handler\<close> may already have run: here it has run once, on a \<^verbatim>\<open>GET /ping\<close>, and
  the process still ends with exit code 1 and the message of the perf map.
\<close>

theorem capture_runs_before_perf_map_failure:
  "exit_code (main [bytes_of ''gohttpsnoop'', bytes_of ''./server/main'', bytes_of ''main.ping'']
      \<lparr>LoadKprobe = None, AttachUprobe = None, InitPerfMap = Some (bytes_of ''no perf map'')\<rparr>
      LittleEndian
      [(frame LittleEndian 0x1080 3 0x1083 5 (bytes_of ''GET/ping''), 0x1000)] []) = 1 \<and>
   fatal (main [bytes_of ''gohttpsnoop'', bytes_of ''./server/main'', bytes_of ''main.ping'']
      \<lparr>LoadKprobe = None, AttachUprobe = None, InitPerfMap = Some (bytes_of ''no perf map'')\<rparr>
      LittleEndian
      [(frame LittleEndian 0x1080 3 0x1083 5 (bytes_of ''GET/ping''), 0x1000)] []) =
     bytes_of ''Failed to init perf map: no perf map'' @ [0x0A] \<and>
   captures (main [bytes_of ''gohttpsnoop'', bytes_of ''./server/main'', bytes_of ''main.ping'']
      \<lparr>LoadKprobe = None, AttachUprobe = None, InitPerfMap = Some (bytes_of ''no perf map'')\<rparr>
      LittleEndian
      [(frame LittleEndian 0x1080 3 0x1083 5 (bytes_of ''GET/ping''), 0x1000)] []) =
     [\<lparr>method_len = 3, path_len = 5, method_arr = bytes_of ''GET'' @ replicate 7 0,
       path = bytes_of ''/ping'' @ replicate 123 0\<rparr>]"
  by code_simp

text \<open>
  C7 as the program has it. When \<^verbatim>\<open>LoadKprobe\<close> or \<^verbatim>\<open>AttachUprobe\<close> returns an
  error, the process ends with exit code 1 and the message of the failing call, and
  \<^verbatim>\<open>handler\<close> has never run. When \<^verbatim>\<open>InitPerfMap\<close> returns an error, the process ends
  with exit code 1 and its message, before \<^verbatim>\<open>perfMap.Start()\<close> and before anything is
  written to standard output; \<^verbatim>\<open>handler\<close> has run at every entry of the traced
  function since the probe was attached. When setup succeeds and the run up to the
  signal ends without a panic, \<^verbatim>\<open>main\<close> returns and the exit code is 0.
\<close>

theorem setup_failure_is_fatal:
  "(\<forall>err. LoadKprobe env = Some err \<longrightarrow>
      fatal (main Args env order calls received) =
        bytes_of ''Failed to load kprobe: '' @ err @ [0x0A]) \<and>
   (\<forall>err msg. LoadKprobe env = None \<and> 3 \<le> length Args \<and> AttachUprobe env = Some err \<and>
      msg = bytes_of ''could not attach uprobe to symbol: '' @ Args ! 2 @ bytes_of '': '' @ err
      \<longrightarrow>
      fatal (main Args env order calls received) =
        (if last msg = 0x0A then msg else msg @ [0x0A])) \<and>
   (LoadKprobe env \<noteq> None \<or> 3 \<le> length Args \<and> AttachUprobe env \<noteq> None \<longrightarrow>
      exit_code (main Args env order calls received) = 1 \<and>
      fatal (main Args env order calls received) \<noteq> [] \<and>
      captures (main Args env order calls received) = [] \<and>
      \<not> started (main Args env order calls received) \<and>
      stdout (main Args env order calls received) = []) \<and>
   (\<forall>err. LoadKprobe env = None \<and> 3 \<le> length Args \<and> AttachUprobe env = None \<and>
      InitPerfMap env = Some err \<longrightarrow>
      exit_code (main Args env order calls received) = 1 \<and>
      fatal (main Args env order calls received) =
        bytes_of ''Failed to init perf map: '' @ err @ [0x0A] \<and>
      captures (main Args env order calls received) =
        map (\<lambda>(mem, sp). handler order mem sp) calls \<and>
      \<not> started (main Args env order calls received) \<and>
      stdout (main Args env order calls received) = []) \<and>
   (LoadKprobe env = None \<and> 3 \<le> length Args \<and> AttachUprobe env = None \<and>
    InitPerfMap env = None \<and> panicked (main Args env order calls received) = None \<longrightarrow>
      started (main Args env order calls received) \<and>
      exit_code (main Args env order calls received) = 0)"
  by (auto simp: main_def Let_def bytes_of_def Fatalf_def split: option.splits prod.splits)

theorem setup_failure_is_fatal_witness:
  "exit_code (main [] \<lparr>LoadKprobe = Some (bytes_of ''no such program''), AttachUprobe = None,
      InitPerfMap = None\<rparr> LittleEndian
      [(frame LittleEndian 0x1080 3 0x1083 5 (bytes_of ''GET/ping''), 0x1000)] []) = 1 \<and>
   fatal (main [] \<lparr>LoadKprobe = Some (bytes_of ''no such program''), AttachUprobe = None,
      InitPerfMap = None\<rparr> LittleEndian
      [(frame LittleEndian 0x1080 3 0x1083 5 (bytes_of ''GET/ping''), 0x1000)] []) =
     bytes_of ''Failed to load kprobe: no such program'' @ [0x0A] \<and>
   captures (main [] \<lparr>LoadKprobe = Some (bytes_of ''no such program''), AttachUprobe = None,
      InitPerfMap = None\<rparr> LittleEndian
      [(frame LittleEndian 0x1080 3 0x1083 5 (bytes_of ''GET/ping''), 0x1000)] []) = [] \<and>
   \<not> started (main [bytes_of ''gohttpsnoop'', bytes_of ''./server/main'', bytes_of ''main.ping'']
      \<lparr>LoadKprobe = None, AttachUprobe = None, InitPerfMap = Some (bytes_of ''no perf map'')\<rparr>
      LittleEndian [] []) \<and>
   exit_code (main [bytes_of ''gohttpsnoop'', bytes_of ''./server/main'', bytes_of ''main.ping'']
      \<lparr>LoadKprobe = None, AttachUprobe = None, InitPerfMap = None\<rparr> LittleEndian [] []) = 0"
proof -
  let ?bad = "\<lparr>LoadKprobe = Some (bytes_of ''no such program''), AttachUprobe = None,
      InitPerfMap = None\<rparr>"
  let ?nomap = "\<lparr>LoadKprobe = None, AttachUprobe = None,
      InitPerfMap = Some (bytes_of ''no perf map'')\<rparr>"
  let ?ok = "\<lparr>LoadKprobe = None, AttachUprobe = None, InitPerfMap = None\<rparr>"
  let ?Args = "[bytes_of ''gohttpsnoop'', bytes_of ''./server/main'', bytes_of ''main.ping'']"
  let ?calls = "[(frame LittleEndian 0x1080 3 0x1083 5 (bytes_of ''GET/ping''), 0x1000)]"
  have 1: "LoadKprobe ?bad = Some (bytes_of ''no such program'')"
    and n1: "LoadKprobe ?bad \<noteq> None"
    by simp_all
  have 2: "LoadKprobe ?ok = None \<and> 3 \<le> length ?Args \<and> AttachUprobe ?ok = None \<and>
    InitPerfMap ?ok = None \<and> panicked (main ?Args ?ok LittleEndian [] []) = None"
    by (simp add: main_def)
  have 3: "LoadKprobe ?nomap = None \<and> 3 \<le> length ?Args \<and> AttachUprobe ?nomap = None \<and>
    InitPerfMap ?nomap = Some (bytes_of ''no perf map'')"
    by simp
  from setup_failure_is_fatal [of ?bad "[]" LittleEndian ?calls "[]"] 1 n1
  have "exit_code (main [] ?bad LittleEndian ?calls []) = 1 \<and>
        fatal (main [] ?bad LittleEndian ?calls []) =
          bytes_of ''Failed to load kprobe: '' @ bytes_of ''no such program'' @ [0x0A] \<and>
        captures (main [] ?bad LittleEndian ?calls []) = []"
    by blast
  moreover from setup_failure_is_fatal [of ?nomap ?Args LittleEndian "[]" "[]"] 3
  have "\<not> started (main ?Args ?nomap LittleEndian [] [])"
    by blast
  moreover from setup_failure_is_fatal [of ?ok ?Args LittleEndian "[]" "[]"] 2
  have "exit_code (main ?Args ?ok LittleEndian [] []) = 0"
    by blast
  ultimately show ?thesis by (simp add: bytes_of_def)
qed

subsection \<open>The printed lines\<close>

text \<open>
  Appending spaces to a string adds one rune for each space, also after a sequence that
  is cut short: a space is never a continuation byte.
\<close>

lemma first_props:
  "\<not> c < 0x80 \<Longrightarrow> first c \<noteq> 0xF1 \<Longrightarrow>
   unat (and (first c) 7) \<in> {2, 3, 4} \<and> 0x20 < fst (acceptRanges (drop_bit 4 (first c)))"
  by (simp add: first_def acceptRanges_def split: if_splits)

lemma rune_advance_pos: "0 < rune_advance s"
  using first_props [of "hd s"] by (auto simp: rune_advance_def Let_def)

lemma rune_advance_le: "s \<noteq> [] \<Longrightarrow> rune_advance s \<le> length s"
  using first_props [of "hd s"] by (cases s) (auto simp: rune_advance_def Let_def Suc_le_eq)

lemma rune_advance_ascii: "hd s < 0x80 \<Longrightarrow> rune_advance s = 1"
  by (simp add: rune_advance_def)

lemma rune_advance_append_spaces:
  assumes "s \<noteq> []"
  shows "rune_advance (s @ replicate k 0x20) = rune_advance s"
proof (cases "hd s < 0x80 \<or> first (hd s) = 0xF1")
  case True
  with assms show ?thesis by (auto simp: rune_advance_def Let_def)
next
  case False
  with first_props [of "hd s"]
  have sz: "unat (and (first (hd s)) 7) \<in> {2, 3, 4}"
    and lo: "0x20 < fst (acceptRanges (drop_bit 4 (first (hd s))))"
    by simp_all
  have sp: "(s @ replicate k 0x20) ! i = 0x20" if "length s \<le> i" "i < length s + k" for i
    using that by (simp add: nth_append)
  have ins: "(s @ replicate k 0x20) ! i = s ! i" if "i < length s" for i
    using that by (simp add: nth_append)
  have hd: "hd (s @ replicate k 0x20) = hd s" using assms by simp
  have ge1: "1 \<le> length s" using assms by (cases s) simp_all
  consider "length s = 1" | "length s = 2" | "length s = 3" | "4 \<le> length s"
    using ge1 by linarith
  then show ?thesis
  proof cases
    case 1
    then show ?thesis
      using False sz lo sp [of 1] sp [of 2] sp [of 3]
      by (auto simp: rune_advance_def Let_def hd)
  next
    case 2
    then show ?thesis
      using False sz lo sp [of 2] sp [of 3] ins [of 1]
      by (auto simp: rune_advance_def Let_def hd)
  next
    case 3
    then show ?thesis
      using False sz lo sp [of 3] ins [of 1] ins [of 2]
      by (auto simp: rune_advance_def Let_def hd)
  next
    case 4
    then show ?thesis
      using False sz ins [of 1] ins [of 2] ins [of 3]
      by (auto simp: rune_advance_def Let_def hd)
  qed
qed


lemma RuneCount_spaces: "RuneCountInString (replicate k 0x20) = k"
proof (induction k)
  case 0
  show ?case by (simp add: RuneCountInString.simps)
next
  case (Suc k)
  have "rune_advance (replicate (Suc k) 0x20) = 1" by (simp add: rune_advance_def)
  with Suc show ?case by (subst RuneCountInString.simps) simp
qed

lemma RuneCount_append_spaces:
  "RuneCountInString (s @ replicate k 0x20) = RuneCountInString s + k"
proof (induction s rule: RuneCountInString.induct)
  case (1 s)
  show ?case
  proof (cases "s = []")
    case True
    then show ?thesis by (simp add: RuneCount_spaces RuneCountInString.simps [of "[]"])
  next
    case False
    have "drop (rune_advance s) (s @ replicate k 0x20) = drop (rune_advance s) s @ replicate k 0x20"
      using rune_advance_le [OF False] by simp
    with 1 [OF False] False show ?thesis
      by (subst RuneCountInString.simps, subst (2) RuneCountInString.simps)
         (simp add: rune_advance_append_spaces)
  qed
qed

lemma RuneCount_le_length: "RuneCountInString s \<le> length s"
proof (induction s rule: RuneCountInString.induct)
  case (1 s)
  show ?case
  proof (cases "s = []")
    case True
    then show ?thesis by (simp add: RuneCountInString.simps)
  next
    case False
    then have "0 < length s" by simp
    moreover from 1 [OF False]
    have "RuneCountInString (drop (rune_advance s) s) \<le> length s - rune_advance s" by simp
    ultimately have "Suc (RuneCountInString (drop (rune_advance s) s)) \<le> length s"
      using rune_advance_pos [of s] by arith
    with False show ?thesis by (subst RuneCountInString.simps) simp
  qed
qed

lemma RuneCount_ascii: "\<forall>b \<in> set s. b < 0x80 \<Longrightarrow> RuneCountInString s = length s"
proof (induction s)
  case Nil
  show ?case by (simp add: RuneCountInString.simps)
next
  case (Cons a s)
  then have "rune_advance (a # s) = 1" by (simp add: rune_advance_def)
  with Cons show ?case by (subst RuneCountInString.simps) simp
qed

lemma padString_width:
  "length m \<le> 10 \<Longrightarrow> RuneCountInString (padString 10 m) = 10"
  using RuneCount_le_length [of m] by (simp add: padString_def RuneCount_append_spaces)


lemma consumer_lines:
  assumes "list_all2 (\<lambda>data (m, pa). \<exists>e. binary_Read data order = Inr e \<and>
              method_path e = Inr (m, pa)) received evs"
  shows "consumer order received out =
           (out @ concat (map (\<lambda>(m, pa). Printf_line m pa) evs), None)"
  using assms
proof (induction received evs arbitrary: out rule: list_all2_induct)
  case Nil
  show ?case by simp
next
  case (Cons data received ev evs)
  obtain m pa where ev: "ev = (m, pa)" by (cases ev)
  with Cons.hyps(1) obtain e where "binary_Read data order = Inr e" "method_path e = Inr (m, pa)"
    by auto
  then have "consume order data = Inr (Printf_line m pa)"
    by (simp add: consume_def)
  with Cons.IH [of "out @ Printf_line m pa"] ev show ?case by simp
qed

text \<open>
  C6. A line is the method, the spaces that bring it to ten runes, one more space, the
  path and a newline. A method of at most ten bytes, which is all the array can hold,
  fills a column of exactly ten runes (ten bytes when it is ASCII). The event
  \<^verbatim>\<open>GET\<close> \<^verbatim>\<open>/ping\<close> is printed as \<^verbatim>\<open>GET        /ping\<close>. After a successful
  setup, when every received entry decodes to an event, standard output is the header
  line \<^verbatim>\<open>Method     Path\<close> followed by the lines of the events in the order received.
\<close>

theorem output_format:
  "Printf_line m pa = m @ replicate (10 - RuneCountInString m) 0x20 @ [0x20] @ pa @ [0x0A] \<and>
   (length m \<le> 10 \<longrightarrow>
      RuneCountInString (m @ replicate (10 - RuneCountInString m) 0x20) = 10) \<and>
   ((\<forall>b \<in> set m. b < 0x80) \<and> length m \<le> 10 \<longrightarrow>
      length (m @ replicate (10 - RuneCountInString m) 0x20) = 10) \<and>
   Printf_line (bytes_of ''GET'') (bytes_of ''/ping'') = bytes_of ''GET        /ping'' @ [0x0A] \<and>
   (LoadKprobe env = None \<and> 3 \<le> length Args \<and> AttachUprobe env = None \<and>
    InitPerfMap env = None \<and>
    list_all2 (\<lambda>data (m, pa). \<exists>e. binary_Read data order = Inr e \<and>
                 method_path e = Inr (m, pa)) received evs \<longrightarrow>
    stdout (main Args env order calls received) =
      bytes_of ''Method     Path'' @ [0x0A] @ concat (map (\<lambda>(m, pa). Printf_line m pa) evs))"
proof -
  have 1: "Printf_line m pa = m @ replicate (10 - RuneCountInString m) 0x20 @ [0x20] @ pa @ [0x0A]"
    by (simp add: Printf_line_def padString_def)
  have 2: "RuneCountInString (m @ replicate (10 - RuneCountInString m) 0x20) = 10"
    if "length m \<le> 10"
    using padString_width [OF that] by (simp add: padString_def)
  have 3: "length (m @ replicate (10 - RuneCountInString m) 0x20) = 10"
    if "(\<forall>b \<in> set m. b < 0x80) \<and> length m \<le> 10"
    using that RuneCount_ascii [of m] by simp
  have 4: "Printf_line (bytes_of ''GET'') (bytes_of ''/ping'') =
          bytes_of ''GET        /ping'' @ [0x0A]"
    by code_simp
  have h: "Printf_line (bytes_of ''Method'') (bytes_of ''Path'') =
          bytes_of ''Method     Path'' @ [0x0A]"
    by code_simp
  have 5: "stdout (main Args env order calls received) =
      bytes_of ''Method     Path'' @ [0x0A] @ concat (map (\<lambda>(m, pa). Printf_line m pa) evs)"
    if "LoadKprobe env = None \<and> 3 \<le> length Args \<and> AttachUprobe env = None \<and>
        InitPerfMap env = None \<and>
        list_all2 (\<lambda>data (m, pa). \<exists>e. binary_Read data order = Inr e \<and>
                 method_path e = Inr (m, pa)) received evs"
  proof -
    from that have l: "list_all2 (\<lambda>data (m, pa). \<exists>e. binary_Read data order = Inr e \<and>
                 method_path e = Inr (m, pa)) received evs" by blast
    from that show ?thesis
      by (simp add: main_def consumer_lines [OF l] h del: append_Cons)
  qed
  from 1 2 3 4 5 show ?thesis by blast
qed

theorem output_format_witness:
  "stdout (main [bytes_of ''gohttpsnoop'', bytes_of ''./server/main'', bytes_of ''main.ping'']
      \<lparr>LoadKprobe = None, AttachUprobe = None, InitPerfMap = None\<rparr> LittleEndian []
      [perf_submit LittleEndian
         \<lparr>method_len = 3, path_len = 5, method_arr = bytes_of ''GET'' @ replicate 7 0,
          path = bytes_of ''/ping'' @ replicate 123 0\<rparr>]) =
     bytes_of ''Method     Path'' @ [0x0A] @ bytes_of ''GET        /ping'' @ [0x0A]"
proof -
  let ?ok = "\<lparr>LoadKprobe = None, AttachUprobe = None, InitPerfMap = None\<rparr>"
  let ?Args = "[bytes_of ''gohttpsnoop'', bytes_of ''./server/main'', bytes_of ''main.ping'']"
  let ?d = "perf_submit LittleEndian
         \<lparr>method_len = 3, path_len = 5, method_arr = bytes_of ''GET'' @ replicate 7 0,
          path = bytes_of ''/ping'' @ replicate 123 0\<rparr>"
  have d: "\<exists>e. binary_Read ?d LittleEndian = Inr e \<and>
             method_path e = Inr (bytes_of ''GET'', bytes_of ''/ping'')"
  proof -
    have "case binary_Read ?d LittleEndian of Inl x \<Rightarrow> False
          | Inr e \<Rightarrow> method_path e = Inr (bytes_of ''GET'', bytes_of ''/ping'')"
      by code_simp
    then show ?thesis by (cases "binary_Read ?d LittleEndian") auto
  qed
  then have l: "list_all2 (\<lambda>data (m, pa). \<exists>e. binary_Read data LittleEndian = Inr e \<and>
                 method_path e = Inr (m, pa)) [?d] [(bytes_of ''GET'', bytes_of ''/ping'')]"
    by simp
  have s: "LoadKprobe ?ok = None \<and> 3 \<le> length ?Args \<and> AttachUprobe ?ok = None \<and>
    InitPerfMap ?ok = None"
    by simp
  from output_format [of "bytes_of ''GET''" "bytes_of ''/ping''" ?ok ?Args LittleEndian "[?d]"
      "[(bytes_of ''GET'', bytes_of ''/ping'')]" "[]"] l s
  have "stdout (main ?Args ?ok LittleEndian [] [?d]) =
      bytes_of ''Method     Path'' @ [0x0A]
      @ concat (map (\<lambda>(m, pa). Printf_line m pa) [(bytes_of ''GET'', bytes_of ''/ping'')])"
    and "Printf_line (bytes_of ''GET'') (bytes_of ''/ping'') =
          bytes_of ''GET        /ping'' @ [0x0A]"
    by blast+
  then show ?thesis by simp
qed

end
